theory Spec2Isabelle
  imports Main
begin

section \<open>Python text primitives used by \<^verbatim>\<open>mongoc_common.py\<close>\<close>

text \<open>
  Python \<^verbatim>\<open>str\<close> values are modelled as \<^typ>\<open>string\<close>; a character stands for the
  code point of the same number, so the model covers texts whose code points are below 256.
\<close>

definition LF :: char where "LF = CHR 0x0A"
definition CR :: char where "CR = CHR 0x0D"

definition is_space :: "char \<Rightarrow> bool" where
  \<comment> \<open>The class \<^verbatim>\<open>\s\<close> of \<^verbatim>\<open>re\<close> on \<^verbatim>\<open>str\<close> patterns: the characters for which
     \<^verbatim>\<open>str.isspace\<close> holds (tab, LF, VT, FF, CR, FS, GS, RS, US, space, NEL, NBSP).\<close>
  "is_space c = (c \<in> set [CHR 0x09, CHR 0x0A, CHR 0x0B, CHR 0x0C, CHR 0x0D,
                            CHR 0x1C, CHR 0x1D, CHR 0x1E, CHR 0x1F, CHR 0x20,
                            CHR 0x85, CHR 0xA0])"

definition is_linebreak :: "char \<Rightarrow> bool" where
  \<comment> \<open>The line boundaries of \<^verbatim>\<open>str.splitlines\<close>: LF, VT, FF, CR, FS, GS, RS, NEL.\<close>
  "is_linebreak c = (c \<in> set [CHR 0x0A, CHR 0x0B, CHR 0x0C, CHR 0x0D,
                                CHR 0x1C, CHR 0x1D, CHR 0x1E, CHR 0x85])"

fun splitlines_from :: "string \<Rightarrow> string \<Rightarrow> string list" where
  \<comment> \<open>\<^verbatim>\<open>str.splitlines()\<close>: the first argument is the line read so far. CR LF is one
     boundary, and a boundary at the very end of the text opens no further line.\<close>
  "splitlines_from cur [] = (if cur = [] then [] else [cur])"
| "splitlines_from cur [c] = (if is_linebreak c then [cur] else [cur @ [c]])"
| "splitlines_from cur (c # d # cs) =
     (if c = CR \<and> d = LF then cur # splitlines_from [] cs
      else if is_linebreak c then cur # splitlines_from [] (d # cs)
      else splitlines_from (cur @ [c]) (d # cs))"

definition splitlines :: "string \<Rightarrow> string list" where
  "splitlines s = splitlines_from [] s"

definition startswith :: "string \<Rightarrow> string \<Rightarrow> bool" where
  "startswith s p = (take (length p) s = p)"

definition endswith :: "string \<Rightarrow> string \<Rightarrow> bool" where
  "endswith s p = (length p \<le> length s \<and> drop (length s - length p) s = p)"

section \<open>The man-page collector\<close>

subsection \<open>\<^verbatim>\<open>re.match(r":man_page:\s+(.+)", line)\<close>\<close>

fun dot_plus_after :: "nat \<Rightarrow> string \<Rightarrow> string option" where
  \<comment> \<open>The backtracking of the greedy \<^verbatim>\<open>\s+\<close> against \<^verbatim>\<open>(.+)\<close>: with \<open>k\<close> characters
     given to \<^verbatim>\<open>\s+\<close>, the group takes the longest run of characters other than LF that
     follows; when that run is empty, \<^verbatim>\<open>\s+\<close> gives one character back. It keeps at
     least one.\<close>
  "dot_plus_after 0 s = None"
| "dot_plus_after (Suc k) s =
     (let grp = takeWhile (\<lambda>c. c \<noteq> LF) (drop (Suc k) s)
      in if grp \<noteq> [] then Some grp else dot_plus_after k s)"

definition re_match_man_page :: "string \<Rightarrow> string option" where
  \<comment> \<open>\<^verbatim>\<open>re.match\<close> matches at the first character of the line only; the result is
     group 1 of the match, \<open>None\<close> when there is no match.\<close>
  "re_match_man_page line =
     (if startswith line '':man_page:''
      then (let rest = drop (length '':man_page:'') line
            in dot_plus_after (length (takeWhile is_space rest)) rest)
      else None)"

fun first_man_page :: "string list \<Rightarrow> string option" where
  \<comment> \<open>The loop of \<^verbatim>\<open>_file_man_page_name\<close>: the first line that matches returns its
     group; falling off the end returns \<^verbatim>\<open>None\<close>.\<close>
  "first_man_page [] = None"
| "first_man_page (line # lines) =
     (case re_match_man_page line of
        None \<Rightarrow> first_man_page lines
      | Some grp \<Rightarrow> Some grp)"

subsection \<open>The source tree and the project\<close>

type_synonym path = "string list"

text \<open>
  The file system under \<^verbatim>\<open>app.srcdir\<close> and the Sphinx \<^verbatim>\<open>Project\<close> are parameters of the
  collector: what \<^verbatim>\<open>docdir.rglob("*")\<close> yields, in its order, and what \<^verbatim>\<open>Path.is_file\<close>,
  \<^verbatim>\<open>Path.suffix\<close>, \<^verbatim>\<open>Path.read_text\<close> and \<^verbatim>\<open>Project.path2doc\<close> answer for a path.
\<close>

record srctree =
  rglob :: "path list"
  is_file :: "path \<Rightarrow> bool"
  suffix :: "path \<Rightarrow> string"
  read_text :: "path \<Rightarrow> string"
  path2doc :: "path \<Rightarrow> string option"

type_synonym man_page = "string \<times> string \<times> string \<times> string list \<times> int"

datatype outcome = Returned | AssertionError path

definition author :: string where
  "author = ''MongoDB, Inc''"

definition file_man_page_name :: "srctree \<Rightarrow> path \<Rightarrow> string option" where
  \<comment> \<open>\<^verbatim>\<open>_file_man_page_name\<close>\<close>
  "file_man_page_name t fpath = first_man_page (splitlines (read_text t fpath))"

definition rst_files :: "srctree \<Rightarrow> path list" where
  "rst_files t = filter (\<lambda>f. suffix t f = ''.rst'') (filter (is_file t) (rglob t))"

definition with_man_name :: "srctree \<Rightarrow> (path \<times> string option) list" where
  "with_man_name t = map (\<lambda>f. (f, file_man_page_name t f)) (rst_files t)"

definition truthy :: "string option \<Rightarrow> bool" where
  \<comment> \<open>Python truth of a \<^verbatim>\<open>str | None\<close>: \<^verbatim>\<open>None\<close> and the empty string are false.\<close>
  "truthy m = (case m of None \<Rightarrow> False | Some s \<Rightarrow> s \<noteq> [])"

definition pairs :: "srctree \<Rightarrow> (path \<times> string) list" where
  "pairs t = map (\<lambda>(f, m). (f, the m)) (filter (\<lambda>(f, m). truthy m) (with_man_name t))"

fun populate :: "srctree \<Rightarrow> (path \<times> string) list \<Rightarrow> man_page list \<Rightarrow> outcome \<times> man_page list" where
  \<comment> \<open>The \<^verbatim>\<open>for\<close> loop that fills \<^verbatim>\<open>man_pages\<close>; a failed \<^verbatim>\<open>assert\<close> leaves the list as
     it is at that moment.\<close>
  "populate t [] man_pages = (Returned, man_pages)"
| "populate t ((filepath, man_name) # rest) man_pages =
     (let docname = path2doc t filepath
      in if truthy docname
         then populate t rest (man_pages @ [(the docname, man_name, '''', [author], 3)])
         else (AssertionError filepath, man_pages))"

definition collect_man :: "srctree \<Rightarrow> man_page list \<Rightarrow> outcome \<times> man_page list" where
  \<comment> \<open>\<^verbatim>\<open>_collect_man\<close>, from the list \<^verbatim>\<open>man_pages\<close> before the call to the outcome and
     the list after it.\<close>
  "collect_man t man_pages = populate t (pairs t) man_pages"

section \<open>Render contexts and the analytics injector\<close>

datatype pyval = PyStr string | PyInt int | PyNone

type_synonym render_context = "string \<rightharpoonup> pyval"

datatype py_error = IndexError | TypeError

definition dict_get :: "render_context \<Rightarrow> string \<Rightarrow> pyval \<Rightarrow> pyval" where
  \<comment> \<open>\<^verbatim>\<open>dict.get(key, default)\<close>\<close>
  "dict_get d k dflt = (case d k of None \<Rightarrow> dflt | Some v \<Rightarrow> v)"

fun py_add :: "pyval \<Rightarrow> pyval \<Rightarrow> py_error + pyval" where
  \<comment> \<open>Python \<^verbatim>\<open>+\<close> on the values a context holds here: it concatenates two strings, adds
     two integers and raises \<^verbatim>\<open>TypeError\<close> otherwise.\<close>
  "py_add (PyStr a) (PyStr b) = Inr (PyStr (a @ b))"
| "py_add (PyInt a) (PyInt b) = Inr (PyInt (a + b))"
| "py_add _ _ = Inl TypeError"

definition ga_snippet :: string where
  \<comment> \<open>The triple-quoted literal of \<^verbatim>\<open>add_ga_javascript\<close>, one source line per row.\<close>
  \<open>ga_snippet =
     ''\<newline>'' @
     ''<!-- Global site tag (gtag.js) - Google Analytics -->\<newline>'' @
     ''<script async src="https://www.googletagmanager.com/gtag/js?id=UA-7301842-14"></script>\<newline>'' @
     ''<script>\<newline>'' @
     ''  window.dataLayer = window.dataLayer || [];\<newline>'' @
     ''  function gtag(){dataLayer.push(arguments);}\<newline>'' @
     ''  gtag(\'js\', new Date());\<newline>'' @
     ''\<newline>'' @
     ''  gtag(\'config\', \'UA-7301842-14\');\<newline>'' @
     ''</script>\<newline>'' @
     ''<!--  NPS survey -->\<newline>'' @
     ''<script type="text/javascript">\<newline>'' @
     ''  !function(e,t,r,n,a){if(!e[a]){for(var i=e[a]=[],s=0;s<r.length;s++){var c=r[s];i[c]=i[c]||function(e){return function(){var t=Array.prototype.slice.call(arguments);i.push([e,t])}}(c)}i.SNIPPET_VERSION="1.0.1";var o=t.createElement("script");o.type="text/javascript",o.async=!0,o.src="https://d2yyd1h5u9mauk.cloudfront.net/integrations/web/v1/library/"+n+"/"+a+".js";var l=t.getElementsByTagName("script")[0];l.parentNode.insertBefore(o,l)}}(window,document,["survey","reset","config","init","set","get","event","identify","track","page","screen","group","alias"],"Dk30CC86ba0nATlK","delighted");\<newline>'' @
     ''\<newline>'' @
     ''  delighted.survey();\<newline>'' @
     ''</script>\<newline>''\<close>

definition add_ga_javascript :: "bool \<Rightarrow> render_context \<Rightarrow> py_error + render_context" where
  \<comment> \<open>The first argument is the truth of \<^verbatim>\<open>app.env.config.analytics\<close>; the result is the
     context after the call, or the exception the call raises.\<close>
  "add_ga_javascript analytics ctx =
     (if \<not> analytics then Inr ctx
      else (case py_add (dict_get ctx ''metatags'' (PyStr '''')) (PyStr ga_snippet) of
              Inl e \<Rightarrow> Inl e
            | Inr v \<Rightarrow> Inr (ctx(''metatags'' \<mapsto> v))))"

section \<open>The version-list directive\<close>

datatype node =
    Text string
  | Paragraph "node list"
  | Reference "node list" bool string
  | List_item "node list"
  | Bullet_list "node list"

text \<open>
  The docutils nodes the directive builds: an element with its children, and for a
  \<^verbatim>\<open>reference\<close> its attributes \<^verbatim>\<open>internal\<close> and \<^verbatim>\<open>refuri\<close>. A text element made
  with a text that is not empty starts with that text as its only child.
\<close>

definition nodes_paragraph :: "string \<Rightarrow> string \<Rightarrow> node" where
  "nodes_paragraph rawsource txt = Paragraph (if txt \<noteq> [] then [Text txt] else [])"

definition nodes_reference :: "string \<Rightarrow> string \<Rightarrow> bool \<Rightarrow> string \<Rightarrow> node" where
  "nodes_reference rawsource txt internal refuri =
     Reference (if txt \<noteq> [] then [Text txt] else []) internal refuri"

definition nodes_list_item :: node where
  "nodes_list_item = List_item []"

definition nodes_bullet_list :: node where
  "nodes_bullet_list = Bullet_list []"

fun add_child :: "node \<Rightarrow> node \<Rightarrow> node" where
  \<comment> \<open>\<^verbatim>\<open>element += child\<close>; the source applies it to elements only.\<close>
  "add_child (Paragraph cs) n = Paragraph (cs @ [n])"
| "add_child (Reference cs i u) n = Reference (cs @ [n]) i u"
| "add_child (List_item cs) n = List_item (cs @ [n])"
| "add_child (Bullet_list cs) n = Bullet_list (cs @ [n])"
| "add_child (Text s) n = Text s"

definition getitem0 :: "'a list \<Rightarrow> py_error + 'a" where
  \<comment> \<open>\<^verbatim>\<open>xs[0]\<close>\<close>
  "getitem0 xs = (case xs of [] \<Rightarrow> Inl IndexError | x # _ \<Rightarrow> Inr x)"

fun split_from :: "char \<Rightarrow> string \<Rightarrow> string \<Rightarrow> string list" where
  \<comment> \<open>\<^verbatim>\<open>str.split(sep)\<close> for a separator of one character: the second argument is the
     piece read so far. Empty pieces are kept, and the result is never empty.\<close>
  "split_from sep cur [] = [cur]"
| "split_from sep cur (c # cs) =
     (if c = sep then cur # split_from sep [] cs else split_from sep (cur @ [c]) cs)"

definition split :: "string \<Rightarrow> char \<Rightarrow> string list" where
  "split s sep = split_from sep [] s"

definition upper_char :: "char \<Rightarrow> char" where
  "upper_char c =
     (let n = (of_char c :: nat) in if 97 \<le> n \<and> n \<le> 122 then char_of (n - 32) else c)"

definition upper :: "string \<Rightarrow> string" where
  \<comment> \<open>\<^verbatim>\<open>str.upper()\<close> on ASCII text; the source calls it on \<^verbatim>\<open>"libmongoc"\<close> and
     \<^verbatim>\<open>"libbson"\<close> only.\<close>
  "upper s = map upper_char s"

definition release_uri :: "string \<Rightarrow> string \<Rightarrow> string" where
  \<comment> \<open>\<^verbatim>\<open>"https://www.mongoc.org/%s/%s/index.html" % (libname, v)\<close>\<close>
  "release_uri libname v = ''https://www.mongoc.org/'' @ libname @ ''/'' @ v @ ''/index.html''"

definition development_uri :: "string \<Rightarrow> string" where
  "development_uri libname =
     ''https://s3.amazonaws.com/mciuploads/mongo-c-driver/docs/'' @ libname @ ''/latest/index.html''"

definition version_item :: "string \<Rightarrow> string \<Rightarrow> node" where
  \<comment> \<open>The body of the loop over \<^verbatim>\<open>versions\<close>: the list item of one version.\<close>
  "version_item libname v =
     (let item = nodes_list_item;
          p = nodes_paragraph '''' '''';
          uri = release_uri libname v;
          p = add_child p (nodes_reference '''' v False uri);
          item = add_child item p
      in item)"

definition run :: "string list \<Rightarrow> (string \<rightharpoonup> string) \<Rightarrow> py_error + string list \<times> node list" where
  \<comment> \<open>\<^verbatim>\<open>VersionList.run\<close>, from \<^verbatim>\<open>self.content\<close> and \<^verbatim>\<open>os.environ\<close> to the lines
     printed and the nodes returned, or the exception raised.\<close>
  "run content environ =
     (case getitem0 content of
        Inl e \<Rightarrow> Inl e
      | Inr c0 \<Rightarrow>
          if c0 \<noteq> ''libmongoc'' \<and> c0 \<noteq> ''libbson''
          then Inr ([''versionlist must be libmongoc or libbson''], [])
          else
            let libname = c0;
                env_name = upper libname @ ''_VERSION_LIST''
            in (case environ env_name of
                  None \<Rightarrow> Inr ([env_name @ '' not set, not generating version list''], [])
                | Some joined \<Rightarrow>
                    let versions = split joined (CHR '','')
                    in (case getitem0 versions of
                          Inl e \<Rightarrow> Inl e
                        | Inr v0 \<Rightarrow>
                            let header = nodes_paragraph '''' '''';
                                p = nodes_paragraph '''' '''';
                                uri = release_uri libname v0;
                                p = add_child p
                                      (nodes_reference '''' (''Latest Release ('' @ v0 @ '')'')
                                         False uri);
                                header = add_child header p;
                                p = nodes_paragraph '''' '''';
                                uri = development_uri libname;
                                p = add_child p
                                      (nodes_reference '''' ''Current Development (master)''
                                         False uri);
                                header = add_child header p;
                                blist = foldl (\<lambda>blist v. add_child blist (version_item libname v))
                                          nodes_bullet_list versions
                            in Inr ([], [header, blist]))))"

section \<open>The redirect generator\<close>

text \<open>
  An absolute path is the list of its components below the root, as \<^verbatim>\<open>pathlib\<close> splits
  it: the parent of the root is the root, and the name of the root is empty.
\<close>

definition path_parent :: "path \<Rightarrow> path" where
  "path_parent p = butlast p"

definition path_name :: "path \<Rightarrow> string" where
  "path_name p = (if p = [] then '''' else last p)"

definition joinpath :: "path \<Rightarrow> string \<Rightarrow> path" where
  \<comment> \<open>\<^verbatim>\<open>p / name\<close>, for a name of one component\<close>
  "joinpath p n = p @ [n]"

text \<open>
  What the hook reads from \<^verbatim>\<open>app\<close>: whether \<^verbatim>\<open>app.builder\<close> is an instance of
  \<^verbatim>\<open>DirectoryHTMLBuilder\<close>, the builder's \<^verbatim>\<open>get_outfilename\<close> (as a path),
  \<^verbatim>\<open>app.project.doc2path(page, basedir=False)\<close>, and the directory of the module, where
  the template \<^verbatim>\<open>redirect.t.html\<close> lies.
\<close>

record sphinx_app =
  builder_is_dirhtml :: bool
  get_outfilename :: "string \<Rightarrow> path"
  doc2path :: "string \<Rightarrow> string"
  module_dir :: path

record handle_page_call =
  hp_pagename :: string
  hp_addctx :: render_context
  hp_templatename :: path
  hp_outfilename :: path

definition redirect_ctx :: "string \<Rightarrow> render_context" where
  \<comment> \<open>\<^verbatim>\<open>{"target": page, "writing-redirect": 1}\<close>\<close>
  "redirect_ctx page = [''target'' \<mapsto> PyStr page, ''writing-redirect'' \<mapsto> PyInt 1]"

definition generate_html_redirs ::
  "sphinx_app \<Rightarrow> string \<Rightarrow> render_context \<Rightarrow> handle_page_call list \<times> string list" where
  \<comment> \<open>The calls of \<^verbatim>\<open>builder.handle_page\<close> the hook makes, and the lines it sends to the
     debug log.\<close>
  "generate_html_redirs app page ctx =
     (if \<not> builder_is_dirhtml app \<or> ctx ''writing-redirect'' \<noteq> None then ([], [])
      else if page = ''index'' \<or> endswith page ''.index'' then ([], [])
      else
        let path = doc2path app page;
            out_index_html = get_outfilename app page;
            slug = path_name (path_parent out_index_html);
            redirect_file = joinpath (path_parent (path_parent out_index_html)) (slug @ ''.html'')
        in ([\<lparr>hp_pagename = ''redirect-for-'' @ page,
               hp_addctx = redirect_ctx page,
               hp_templatename = joinpath (module_dir app) ''redirect.t.html'',
               hp_outfilename = redirect_file\<rparr>],
            [''Wrote redirect: '' @ path @ '' -> '' @ page]))"

text \<open>
  The framework's \<^verbatim>\<open>DirectoryHTMLBuilder.get_outfilename\<close> (Sphinx,
  \<^verbatim>\<open>sphinx/builders/dirhtml.py\<close>), read as a path: a page named \<^verbatim>\<open>index\<close> or ending with
  \<^verbatim>\<open>/index\<close> is written to the file of its own name with the output suffix, every other
  page to the file \<^verbatim>\<open>index\<close> with the output suffix in the directory of its name. A page
  name is a relative path with the separator \<^verbatim>\<open>/\<close>; \<^verbatim>\<open>pathlib\<close> drops its empty components
  and its components \<^verbatim>\<open>.\<close>.
\<close>

definition path_parts :: "string \<Rightarrow> path" where
  "path_parts s = filter (\<lambda>c. c \<noteq> '''' \<and> c \<noteq> ''.'') (split s (CHR ''/''))"

definition dirhtml_get_outfilename :: "path \<Rightarrow> string \<Rightarrow> string \<Rightarrow> path" where
  "dirhtml_get_outfilename outdir out_suffix pagename =
     (if pagename = ''index'' \<or> endswith pagename ''/index''
      then outdir @ path_parts (pagename @ out_suffix)
      else outdir @ path_parts pagename @ [''index'' @ out_suffix])"

section \<open>Example inputs\<close>

definition example_text :: "path \<Rightarrow> string" where
  "example_text p =
     (if p = [''docs'', ''api.rst'']
      then ''API\<newline>===\<newline>:man_page: mongoc_api\<newline>:man_page: mongoc_other\<newline>''
      else if p = [''docs'', ''indented.rst''] then ''  :man_page: foo''
      else if p = [''docs'', ''quoted.rst''] then ''.. :man_page: foo''
      else if p = [''docs'', ''notes.txt''] then '':man_page: notes''
      else ''Title'')"

definition example_tree :: srctree where
  \<comment> \<open>A directory with three \<^verbatim>\<open>.rst\<close> documents and a text file; only \<^verbatim>\<open>api.rst\<close> has a
     line that starts with the marker, and the project resolves its path to \<^verbatim>\<open>api\<close>.\<close>
  "example_tree =
     \<lparr>rglob = [[''docs''], [''docs'', ''api.rst''], [''docs'', ''indented.rst''],
               [''docs'', ''quoted.rst''], [''docs'', ''notes.txt'']],
      is_file = (\<lambda>p. p \<noteq> [''docs'']),
      suffix = (\<lambda>p. if p = [''docs''] then '''' else drop (length (last p) - 4) (last p)),
      read_text = example_text,
      path2doc = (\<lambda>p. if p = [''docs'', ''api.rst''] then Some ''api'' else None)\<rparr>"

definition unresolved_tree :: srctree where
  \<comment> \<open>The same directory under a project that resolves no path.\<close>
  "unresolved_tree = example_tree\<lparr>path2doc := (\<lambda>p. None)\<rparr>"

definition example_app :: sphinx_app where
  \<comment> \<open>A directory-style HTML build that writes the page \<^verbatim>\<open>a/b\<close> to
     \<^verbatim>\<open>/out/a/b/index.html\<close>.\<close>
  "example_app =
     \<lparr>builder_is_dirhtml = True,
      get_outfilename = (\<lambda>page. [''out'', ''a'', ''b'', ''index.html'']),
      doc2path = (\<lambda>page. page @ ''.rst''),
      module_dir = [''build'', ''sphinx'']\<rparr>"

definition blank_value_tree :: srctree where
  \<comment> \<open>The example directory with every file reading as two marker lines, the first with
     two blanks and nothing else after the marker.\<close>
  "blank_value_tree =
     example_tree\<lparr>read_text := (\<lambda>p. '':man_page:  \<newline>:man_page: foo'')\<rparr>"

definition dirhtml_app :: sphinx_app where
  \<comment> \<open>A directory-style HTML build into \<^verbatim>\<open>/srv/out\<close> with the output suffix
     \<^verbatim>\<open>.html\<close>.\<close>
  "dirhtml_app =
     \<lparr>builder_is_dirhtml = True,
      get_outfilename = dirhtml_get_outfilename [''srv'', ''out''] ''.html'',
      doc2path = (\<lambda>page. page @ ''.rst''),
      module_dir = [''build'', ''sphinx'']\<rparr>"

section \<open>Facts about the text primitives and the matcher\<close>

lemma splitlines_from_no_linebreak:
  "\<forall>c\<in>set cur. \<not> is_linebreak c \<Longrightarrow> l \<in> set (splitlines_from cur s) \<Longrightarrow> c \<in> set l
     \<Longrightarrow> \<not> is_linebreak c"
  by (induction cur s rule: splitlines_from.induct) (auto split: if_splits)

lemma splitlines_no_LF: "l \<in> set (splitlines s) \<Longrightarrow> LF \<notin> set l"
  using splitlines_from_no_linebreak [of "[]" l s LF]
  by (auto simp: splitlines_def is_linebreak_def LF_def)

lemma dot_plus_after_nonempty: "dot_plus_after k s = Some g \<Longrightarrow> g \<noteq> []"
  by (induction k) (auto simp: Let_def split: if_splits)

lemma re_match_man_page_nonempty: "re_match_man_page l = Some g \<Longrightarrow> g \<noteq> []"
  unfolding re_match_man_page_def
  by (auto simp: Let_def dest: dot_plus_after_nonempty split: if_splits)

lemma re_match_man_page_shape:
  assumes "ws \<noteq> []" and "\<forall>c\<in>set ws. is_space c" and "v \<noteq> []" and "\<not> is_space (hd v)"
    and "LF \<notin> set v"
  shows "re_match_man_page ('':man_page:'' @ ws @ v) = Some v"
proof -
  obtain k where k: "length ws = Suc k"
    using assms(1) by (cases ws) auto
  have tw: "takeWhile is_space (ws @ v) = ws"
    using assms(2,3,4) by (cases v) (auto simp: takeWhile_append2)
  have grp: "takeWhile (\<lambda>c. c \<noteq> LF) v = v"
    using assms(5) by (auto simp: takeWhile_eq_all_conv)
  have "dot_plus_after (Suc k) (ws @ v) = Some v"
    by (simp add: k grp assms(3))
  then show ?thesis
    by (simp add: re_match_man_page_def startswith_def tw k)
qed

lemma dot_plus_after_drop:
  "dot_plus_after k s = Some X \<Longrightarrow>
     \<exists>j. 0 < j \<and> j \<le> k \<and> X = takeWhile (\<lambda>c. c \<noteq> LF) (drop j s) \<and> X \<noteq> []"
proof (induction k)
  case 0
  then show ?case by simp
next
  case (Suc k)
  show ?case
  proof (cases "takeWhile (\<lambda>c. c \<noteq> LF) (drop (Suc k) s) = []")
    case True
    with Suc.prems have "dot_plus_after k s = Some X"
      by (simp add: Let_def)
    from Suc.IH [OF this] show ?thesis
      by (auto intro: le_SucI)
  next
    case False
    with Suc.prems have "X = takeWhile (\<lambda>c. c \<noteq> LF) (drop (Suc k) s)"
      by (simp add: Let_def)
    with False show ?thesis
      by blast
  qed
qed

lemma take_in_takeWhile:
  assumes "j \<le> length (takeWhile P s)"
  shows "\<forall>c\<in>set (take j s). P c"
proof -
  have "take j (takeWhile P s @ dropWhile P s) = take j (takeWhile P s)"
    using assms by (simp del: takeWhile_dropWhile_id)
  then have "take j s = take j (takeWhile P s)"
    by simp
  then have "set (take j s) \<subseteq> set (takeWhile P s)"
    by (simp add: set_take_subset)
  then show ?thesis
    by (auto dest: set_takeWhileD)
qed

lemma re_match_man_page_anchored:
  assumes "re_match_man_page l = Some X" and "LF \<notin> set l"
  shows "\<exists>ws. ws \<noteq> [] \<and> (\<forall>c\<in>set ws. is_space c) \<and> l = '':man_page:'' @ ws @ X"
proof -
  define rest where "rest = drop (length '':man_page:'') l"
  have start: "startswith l '':man_page:''"
    using assms(1) by (auto simp: re_match_man_page_def split: if_splits)
  then have l: "l = '':man_page:'' @ rest"
    unfolding rest_def startswith_def by (metis append_take_drop_id)
  have "dot_plus_after (length (takeWhile is_space rest)) rest = Some X"
    using assms(1) start by (simp add: re_match_man_page_def rest_def Let_def)
  then obtain j where j: "0 < j" "j \<le> length (takeWhile is_space rest)"
      "X = takeWhile (\<lambda>c. c \<noteq> LF) (drop j rest)" "X \<noteq> []"
    using dot_plus_after_drop by blast
  have "LF \<notin> set (drop j rest)"
    using assms(2) l by (metis Un_iff in_set_dropD set_append)
  then have X: "X = drop j rest"
    using j(3) by (auto simp: takeWhile_eq_all_conv)
  have ne: "take j rest \<noteq> []"
    using j(1,4) X by auto
  have sp: "\<forall>c\<in>set (take j rest). is_space c"
    using j(2) by (rule take_in_takeWhile)
  have "l = '':man_page:'' @ take j rest @ X"
    using l X by simp
  with ne sp show ?thesis
    by blast
qed

lemma first_man_page_nonempty: "first_man_page ls = Some g \<Longrightarrow> g \<noteq> []"
  by (induction ls) (auto split: option.splits dest: re_match_man_page_nonempty)

lemma first_man_page_skip:
  "\<forall>p\<in>set pre. re_match_man_page p = None \<Longrightarrow> first_man_page (pre @ ls) = first_man_page ls"
  by (induction pre) auto


lemma split_from_nonempty: "split_from sep cur s \<noteq> []"
  by (induction s arbitrary: cur) auto

lemma upper_libmongoc: "upper ''libmongoc'' = ''LIBMONGOC''"
  by code_simp

lemma split_three_versions: "split ''1.0,2.0,3.0'' (CHR '','') = [''1.0'', ''2.0'', ''3.0'']"
  by code_simp

section \<open>Facts about the collector\<close>

lemma truthy_file_man_page_name:
  "truthy (file_man_page_name t f) \<longleftrightarrow> file_man_page_name t f \<noteq> None"
  unfolding truthy_def file_man_page_name_def
  by (auto split: option.splits dest: first_man_page_nonempty)


lemma pairs_eq:
  "pairs t = map (\<lambda>f. (f, the (file_man_page_name t f)))
               (filter (\<lambda>f. file_man_page_name t f \<noteq> None) (rst_files t))"
  unfolding pairs_def with_man_name_def
  by (simp add: filter_map comp_def truthy_file_man_page_name)

lemma populate_eq:
  "populate t ps mp =
     ((case dropWhile (\<lambda>(f, m). truthy (path2doc t f)) ps of
         [] \<Rightarrow> Returned
       | (f, m) # _ \<Rightarrow> AssertionError f),
      mp @ map (\<lambda>(f, m). (the (path2doc t f), m, '''', [author], 3))
             (takeWhile (\<lambda>(f, m). truthy (path2doc t f)) ps))"
  by (induction ps arbitrary: mp) (auto simp: Let_def)


lemma example_tree_no_match_before:
  "\<forall>p\<in>set [''API'', ''===''] . re_match_man_page p = None"
  by code_simp

section \<open>The man-page collector: one entry per marked document\<close>



section \<open>The man-page collector: the first matching line\<close>

text \<open>
  Claim C6. When the lines of a document are \<open>pre @ l # post\<close>, no line of \<open>pre\<close> matches
  and \<open>l\<close> matches with group \<open>X\<close>, the man-page name of the document is \<open>X\<close>, whatever
  the later lines \<open>post\<close> are: the lines after the first match, matching or not, are not
  read, and the function has no error or warning to give.
\<close>

theorem file_man_page_name_first_match:
  assumes "splitlines (read_text t f) = pre @ l # post"
    and "\<forall>p\<in>set pre. re_match_man_page p = None"
    and "re_match_man_page l = Some X"
  shows "file_man_page_name t f = Some X"
  by (simp add: file_man_page_name_def assms(1,3) first_man_page_skip [OF assms(2)])

text \<open>
  \<^verbatim>\<open>api.rst\<close> of the example has two matching lines; the name is the group of the first.
\<close>

theorem file_man_page_name_first_match_witness:
  "splitlines (read_text example_tree [''docs'', ''api.rst'']) =
     [''API'', ''===''] @ '':man_page: mongoc_api'' # ['':man_page: mongoc_other''] \<and>
   re_match_man_page ''API'' = None \<and> re_match_man_page ''==='' = None \<and>
   re_match_man_page '':man_page: mongoc_api'' = Some ''mongoc_api'' \<and>
   re_match_man_page '':man_page: mongoc_other'' = Some ''mongoc_other'' \<and>
   file_man_page_name example_tree [''docs'', ''api.rst''] = Some ''mongoc_api''"
proof -
  have lines: "splitlines (read_text example_tree [''docs'', ''api.rst'']) =
      [''API'', ''===''] @ '':man_page: mongoc_api'' # ['':man_page: mongoc_other'']"
    by code_simp
  have before: "\<forall>p\<in>set [''API'', ''===''] . re_match_man_page p = None"
    by (rule example_tree_no_match_before)
  have first: "re_match_man_page '':man_page: mongoc_api'' = Some ''mongoc_api''"
    by code_simp
  have second: "re_match_man_page '':man_page: mongoc_other'' = Some ''mongoc_other''"
    by code_simp
  from file_man_page_name_first_match [OF lines before first] lines before first second
  show ?thesis
    by simp
qed

section \<open>The man-page collector: a path that does not resolve\<close>

text \<open>
  Claim C8. Let \<open>f\<close> be an \<^verbatim>\<open>.rst\<close> file with a man-page name \<open>X\<close> for which
  \<^verbatim>\<open>path2doc\<close> gives no document (\<^verbatim>\<open>None\<close> or the empty string). Then the collector
  ends in an \<^verbatim>\<open>AssertionError\<close>: it is raised at the first such file \<open>g\<close> of the run,
  and \<^verbatim>\<open>man_pages\<close> then holds, after its old content, the entries of the files
  \<open>before\<close> \<open>g\<close> only. Every one of them resolves, so \<open>f\<close> is not among them: the file is
  neither skipped nor given an entry.
\<close>

theorem collect_man_unresolved_asserts:
  assumes "f \<in> set (rst_files t)" and "file_man_page_name t f = Some X"
    and "\<not> truthy (path2doc t f)"
  shows "\<exists>before g Y after.
           pairs t = before @ (g, Y) # after \<and>
           (\<forall>(h, m)\<in>set before. truthy (path2doc t h)) \<and>
           \<not> truthy (path2doc t g) \<and>
           collect_man t mp =
             (AssertionError g,
              mp @ map (\<lambda>(h, m). (the (path2doc t h), m, '''', [author], 3)) before) \<and>
           (f, X) \<notin> set before"
proof -
  let ?P = "\<lambda>(f, m). truthy (path2doc t f)"
  have mem: "(f, X) \<in> set (pairs t)"
    using assms(1,2) by (force simp: pairs_eq)
  then have "dropWhile ?P (pairs t) \<noteq> []"
    using assms(3) by auto
  then obtain g Y after where dw: "dropWhile ?P (pairs t) = (g, Y) # after"
    by (cases "dropWhile ?P (pairs t)") auto
  have parts: "pairs t = takeWhile ?P (pairs t) @ (g, Y) # after"
    using dw takeWhile_dropWhile_id [of ?P "pairs t"] by simp
  have g: "\<not> truthy (path2doc t g)"
    using dw hd_dropWhile [of ?P "pairs t"] by auto
  have before: "\<forall>(h, m)\<in>set (takeWhile ?P (pairs t)). truthy (path2doc t h)"
    by (auto dest: set_takeWhileD)
  have nf: "(f, X) \<notin> set (takeWhile ?P (pairs t))"
    using assms(3) by (auto dest: set_takeWhileD)
  have "collect_man t mp =
          (AssertionError g,
           mp @ map (\<lambda>(h, m). (the (path2doc t h), m, '''', [author], 3))
                  (takeWhile ?P (pairs t)))"
    by (simp add: collect_man_def populate_eq dw)
  with parts g before nf show ?thesis
    by blast
qed

text \<open>
  Under a project that resolves no path, the collector stops at \<^verbatim>\<open>api.rst\<close> and appends
  nothing.
\<close>

theorem collect_man_unresolved_asserts_witness:
  "[''docs'', ''api.rst''] \<in> set (rst_files unresolved_tree) \<and>
   file_man_page_name unresolved_tree [''docs'', ''api.rst''] = Some ''mongoc_api'' \<and>
   \<not> truthy (path2doc unresolved_tree [''docs'', ''api.rst'']) \<and>
   (\<exists>before g Y after.
      pairs unresolved_tree = before @ (g, Y) # after \<and>
      (\<forall>(h, m)\<in>set before. truthy (path2doc unresolved_tree h)) \<and>
      \<not> truthy (path2doc unresolved_tree g) \<and>
      collect_man unresolved_tree [] =
        (AssertionError g,
         [] @ map (\<lambda>(h, m). (the (path2doc unresolved_tree h), m, '''', [author], 3)) before) \<and>
      ([''docs'', ''api.rst''], ''mongoc_api'') \<notin> set before) \<and>
   collect_man unresolved_tree [] = (AssertionError [''docs'', ''api.rst''], [])"
proof -
  have listed: "[''docs'', ''api.rst''] \<in> set (rst_files unresolved_tree)"
    by code_simp
  have named: "file_man_page_name unresolved_tree [''docs'', ''api.rst''] = Some ''mongoc_api''"
    by code_simp
  have unresolved: "\<not> truthy (path2doc unresolved_tree [''docs'', ''api.rst''])"
    by code_simp
  have aborted: "collect_man unresolved_tree [] = (AssertionError [''docs'', ''api.rst''], [])"
    by code_simp
  from collect_man_unresolved_asserts [OF listed named unresolved, of "[]"]
    listed named unresolved aborted
  show ?thesis
    by blast
qed

section \<open>The man-page collector: where the marker stands in its line\<close>

text \<open>
  \<^verbatim>\<open>re.match\<close> tries the pattern at the first character of the line and nowhere else. A
  line in which blanks or other characters stand before \<^verbatim>\<open>:man_page: foo\<close> holds text
  that matches the pattern, yet the line does not match, and a document whose only marker
  is such a line has no man-page name.
\<close>

theorem file_man_page_name_marker_not_at_start:
  "read_text example_tree [''docs'', ''indented.rst''] = ''  '' @ '':man_page: foo'' \<and>
   re_match_man_page '':man_page: foo'' = Some ''foo'' \<and>
   file_man_page_name example_tree [''docs'', ''indented.rst''] = None \<and>
   read_text example_tree [''docs'', ''quoted.rst''] = ''.. '' @ '':man_page: foo'' \<and>
   file_man_page_name example_tree [''docs'', ''quoted.rst''] = None"
  by code_simp

text \<open>
  Claim C9, amended. When a line \<open>l\<close> of a document matches the pattern at its first
  character with group \<open>X\<close>, and no earlier line of the document matches, \<open>X\<close> is the
  man-page name of the document. Such a line is the marker \<^verbatim>\<open>:man_page:\<close>, then one or
  more whitespace characters, then \<open>X\<close>: nothing stands before the marker.
\<close>

theorem file_man_page_name_anchored_match:
  assumes "splitlines (read_text t f) = pre @ l # post"
    and "\<forall>p\<in>set pre. re_match_man_page p = None"
    and "re_match_man_page l = Some X"
  shows "file_man_page_name t f = Some X \<and>
         (\<exists>ws. ws \<noteq> [] \<and> (\<forall>c\<in>set ws. is_space c) \<and> l = '':man_page:'' @ ws @ X)"
proof -
  have "l \<in> set (splitlines (read_text t f))"
    by (simp add: assms(1))
  then have "LF \<notin> set l"
    by (rule splitlines_no_LF)
  with assms(3)
  have "\<exists>ws. ws \<noteq> [] \<and> (\<forall>c\<in>set ws. is_space c) \<and> l = '':man_page:'' @ ws @ X"
    by (rule re_match_man_page_anchored)
  moreover have "file_man_page_name t f = Some X"
    by (simp add: file_man_page_name_def assms(1,3) first_man_page_skip [OF assms(2)])
  ultimately show ?thesis
    by simp
qed

text \<open>
  The third line of \<^verbatim>\<open>api.rst\<close> is the first that matches, with the group
  \<^verbatim>\<open>mongoc_api\<close>. In the document whose first line is the marker and two blanks, that line
  matches with the second blank as its group, and the name is that blank, not \<^verbatim>\<open>foo\<close>.
\<close>

theorem file_man_page_name_anchored_match_witness:
  "splitlines (read_text example_tree [''docs'', ''api.rst'']) =
     [''API'', ''===''] @ '':man_page: mongoc_api'' # ['':man_page: mongoc_other''] \<and>
   re_match_man_page ''API'' = None \<and> re_match_man_page ''==='' = None \<and>
   re_match_man_page '':man_page: mongoc_api'' = Some ''mongoc_api'' \<and>
   file_man_page_name example_tree [''docs'', ''api.rst''] = Some ''mongoc_api'' \<and>
   (\<exists>ws. ws \<noteq> [] \<and> (\<forall>c\<in>set ws. is_space c) \<and>
      '':man_page: mongoc_api'' = '':man_page:'' @ ws @ ''mongoc_api'') \<and>
   splitlines (read_text blank_value_tree [''docs'', ''api.rst'']) =
     [] @ '':man_page:  '' # ['':man_page: foo''] \<and>
   re_match_man_page '':man_page:  '' = Some '' '' \<and>
   file_man_page_name blank_value_tree [''docs'', ''api.rst''] = Some '' '' \<and>
   (\<exists>ws. ws \<noteq> [] \<and> (\<forall>c\<in>set ws. is_space c) \<and> '':man_page:  '' = '':man_page:'' @ ws @ '' '')"
proof -
  have api_lines: "splitlines (read_text example_tree [''docs'', ''api.rst'']) =
      [''API'', ''===''] @ '':man_page: mongoc_api'' # ['':man_page: mongoc_other'']"
    by code_simp
  have api_before: "\<forall>p\<in>set [''API'', ''===''] . re_match_man_page p = None"
    by (rule example_tree_no_match_before)
  have api_match: "re_match_man_page '':man_page: mongoc_api'' = Some ''mongoc_api''"
    by code_simp
  have blank_lines: "splitlines (read_text blank_value_tree [''docs'', ''api.rst'']) =
      [] @ '':man_page:  '' # ['':man_page: foo'']"
    by code_simp
  have blank_before: "\<forall>p\<in>set ([] :: string list). re_match_man_page p = None"
    by simp
  have blank_match: "re_match_man_page '':man_page:  '' = Some '' ''"
    by code_simp
  from file_man_page_name_anchored_match [OF api_lines api_before api_match]
    file_man_page_name_anchored_match [OF blank_lines blank_before blank_match]
    api_lines api_before api_match blank_lines blank_match
  show ?thesis
    by simp
qed

section \<open>The analytics injector\<close>

text \<open>
  Claim C3. With the flag false the call returns the context as it was. With the flag true
  and no \<^verbatim>\<open>metatags\<close> key, the key is set to the snippet, that is the empty string with
  the snippet after it; with the flag true and a string \<open>prior\<close> under the key, the key is
  set to \<open>prior\<close> with the snippet after it. Nothing else of the context changes.
\<close>

theorem add_ga_javascript_appends:
  "(\<not> analytics \<longrightarrow> add_ga_javascript analytics ctx = Inr ctx) \<and>
   (analytics \<longrightarrow>
      (ctx ''metatags'' = None \<longrightarrow>
         add_ga_javascript analytics ctx = Inr (ctx(''metatags'' \<mapsto> PyStr ('''' @ ga_snippet)))) \<and>
      (\<forall>prior. ctx ''metatags'' = Some (PyStr prior) \<longrightarrow>
         add_ga_javascript analytics ctx =
           Inr (ctx(''metatags'' \<mapsto> PyStr (prior @ ga_snippet)))))"
  by (simp add: add_ga_javascript_def dict_get_def)

theorem add_ga_javascript_appends_witness:
  "add_ga_javascript False [''metatags'' \<mapsto> PyStr ''<meta>'', ''title'' \<mapsto> PyStr ''t''] =
     Inr [''metatags'' \<mapsto> PyStr ''<meta>'', ''title'' \<mapsto> PyStr ''t''] \<and>
   add_ga_javascript True [''title'' \<mapsto> PyStr ''t''] =
     Inr ([''title'' \<mapsto> PyStr ''t''](''metatags'' \<mapsto> PyStr ('''' @ ga_snippet))) \<and>
   add_ga_javascript True [''metatags'' \<mapsto> PyStr ''<meta>'', ''title'' \<mapsto> PyStr ''t''] =
     Inr ([''metatags'' \<mapsto> PyStr ''<meta>'', ''title'' \<mapsto> PyStr ''t'']
            (''metatags'' \<mapsto> PyStr (''<meta>'' @ ga_snippet)))"
  using add_ga_javascript_appends
      [of False "[''metatags'' \<mapsto> PyStr ''<meta>'', ''title'' \<mapsto> PyStr ''t'']"]
    add_ga_javascript_appends [of True "[''title'' \<mapsto> PyStr ''t'']"]
    add_ga_javascript_appends
      [of True "[''metatags'' \<mapsto> PyStr ''<meta>'', ''title'' \<mapsto> PyStr ''t'']"]
  by simp

section \<open>The version-list directive\<close>

text \<open>
  Claim C4. With \<^verbatim>\<open>libmongoc\<close> as the first line of the body and
  \<^verbatim>\<open>LIBMONGOC_VERSION_LIST\<close> set to \<^verbatim>\<open>1.0,2.0,3.0\<close>, the directive prints nothing and
  returns two nodes: a header whose first link is the latest release, named and aimed at
  version \<^verbatim>\<open>1.0\<close>, and a bulleted list of three items, the links of \<^verbatim>\<open>1.0\<close>, \<^verbatim>\<open>2.0\<close>
  and \<^verbatim>\<open>3.0\<close> in that order.
\<close>

theorem run_libmongoc_three_versions:
  "run (''libmongoc'' # others) (environ(''LIBMONGOC_VERSION_LIST'' \<mapsto> ''1.0,2.0,3.0'')) =
     Inr ([],
       [Paragraph
          [Paragraph [Reference [Text ''Latest Release (1.0)''] False
                        ''https://www.mongoc.org/libmongoc/1.0/index.html''],
           Paragraph [Reference [Text ''Current Development (master)''] False
                        ''https://s3.amazonaws.com/mciuploads/mongo-c-driver/docs/libmongoc/latest/index.html'']],
        Bullet_list
          [List_item [Paragraph [Reference [Text ''1.0''] False
                                   ''https://www.mongoc.org/libmongoc/1.0/index.html'']],
           List_item [Paragraph [Reference [Text ''2.0''] False
                                   ''https://www.mongoc.org/libmongoc/2.0/index.html'']],
           List_item [Paragraph [Reference [Text ''3.0''] False
                                   ''https://www.mongoc.org/libmongoc/3.0/index.html'']]]])"
  by (simp add: run_def getitem0_def upper_libmongoc split_three_versions Let_def
      nodes_paragraph_def nodes_reference_def nodes_list_item_def nodes_bullet_list_def
      version_item_def release_uri_def development_uri_def)

text \<open>
  Claim C5. When the body has a first line \<open>c0\<close>, and \<open>c0\<close> is neither \<^verbatim>\<open>libmongoc\<close> nor
  \<^verbatim>\<open>libbson\<close> or the variable named by \<open>c0\<close> in upper case and \<^verbatim>\<open>_VERSION_LIST\<close> is not
  set, the directive raises nothing: it prints one line and returns no node.
\<close>

theorem run_diagnostic_no_nodes:
  assumes "(c0 \<noteq> ''libmongoc'' \<and> c0 \<noteq> ''libbson'') \<or>
           environ (upper c0 @ ''_VERSION_LIST'') = None"
  shows "\<exists>line. run (c0 # others) environ = Inr ([line], [])"
  using assms unfolding run_def getitem0_def
  by (auto simp: Let_def)

theorem run_diagnostic_no_nodes_witness:
  "''unknown'' \<noteq> ''libmongoc'' \<and> ''unknown'' \<noteq> ''libbson'' \<and>
   (\<exists>line. run [''unknown''] [''LIBMONGOC_VERSION_LIST'' \<mapsto> ''1.0''] = Inr ([line], [])) \<and>
   [''LIBMONGOC_VERSION_LIST'' \<mapsto> ''1.0''] (upper ''libbson'' @ ''_VERSION_LIST'') = None \<and>
   (\<exists>line. run [''libbson''] [''LIBMONGOC_VERSION_LIST'' \<mapsto> ''1.0''] = Inr ([line], []))"
proof -
  have unknown: "''unknown'' \<noteq> ''libmongoc'' \<and> ''unknown'' \<noteq> ''libbson''"
    by simp
  have unset: "[''LIBMONGOC_VERSION_LIST'' \<mapsto> ''1.0''] (upper ''libbson'' @ ''_VERSION_LIST'') = None"
    by code_simp
  from run_diagnostic_no_nodes
      [of "''unknown''" "[''LIBMONGOC_VERSION_LIST'' \<mapsto> ''1.0'']" "[]"]
    run_diagnostic_no_nodes
      [of "''libbson''" "[''LIBMONGOC_VERSION_LIST'' \<mapsto> ''1.0'']" "[]"]
    unknown unset
  show ?thesis
    by blast
qed

text \<open>
  Claim C10. With an empty body the directive raises \<^verbatim>\<open>IndexError\<close> at
  \<^verbatim>\<open>self.content[0]\<close>, and the empty body is the only input on which it raises.
\<close>

theorem run_empty_body_raises:
  "run [] environ = Inl IndexError \<and> ((\<exists>e. run content environ = Inl e) = (content = []))"
proof -
  have "(\<exists>e. run content environ = Inl e) = (content = [])"
    unfolding run_def getitem0_def split_def
    using split_from_nonempty
    by (cases content) (auto simp: Let_def split: option.splits list.splits)
  then show ?thesis
    by (simp add: run_def getitem0_def)
qed

section \<open>The redirect generator\<close>

text \<open>
  The directory-style builder writes the page \<^verbatim>\<open>a/index\<close> to \<^verbatim>\<open>a/index.html\<close> in its
  output directory. The page is not \<^verbatim>\<open>index\<close> and does not end with \<^verbatim>\<open>.index\<close>, so the
  hook goes on, and the file of its one call is \<^verbatim>\<open>a.html\<close> in the output directory: the
  name of the file is not the last part \<^verbatim>\<open>index\<close> of the page.
\<close>

theorem generate_html_redirs_index_in_directory:
  "builder_is_dirhtml dirhtml_app \<and>
   ''a/index'' \<noteq> ''index'' \<and> \<not> endswith ''a/index'' ''.index'' \<and>
   path_parts ''a/index'' = [''a''] @ [''index''] \<and>
   get_outfilename dirhtml_app ''a/index'' = [''srv'', ''out'', ''a'', ''index.html''] \<and>
   map hp_outfilename (fst (generate_html_redirs dirhtml_app ''a/index'' Map.empty)) =
     [[''srv'', ''out'', ''a.html'']]"
  by code_simp

text \<open>
  Claim C2, amended. Under the directory-style HTML builder, for a context without the
  redirect marker and a page with the parts \<open>a/b\<close> that is not \<^verbatim>\<open>index\<close> and ends neither
  with \<^verbatim>\<open>.index\<close> nor with \<^verbatim>\<open>/index\<close>, the builder writes the page into the directory
  \<open>a/b\<close> of its output directory, the hook makes one call of \<^verbatim>\<open>handle_page\<close>, and the
  file of that call is \<open>b.html\<close> in \<open>a\<close>, beside the directory \<open>b\<close>. When the builder is
  another one, when the context has the key \<^verbatim>\<open>writing-redirect\<close>, or when the page is
  \<^verbatim>\<open>index\<close> or ends with \<^verbatim>\<open>.index\<close>, the hook makes no call.
\<close>

theorem generate_html_redirs_dirhtml_sibling_file:
  "(builder_is_dirhtml app \<and> ctx ''writing-redirect'' = None \<and> page \<noteq> ''index'' \<and>
    \<not> endswith page ''.index'' \<and> \<not> endswith page ''/index'' \<and>
    get_outfilename app page = dirhtml_get_outfilename outdir out_suffix page \<and>
    path_parts page = a @ [b] \<longrightarrow>
      fst (generate_html_redirs app page ctx) =
        [\<lparr>hp_pagename = ''redirect-for-'' @ page,
          hp_addctx = [''target'' \<mapsto> PyStr page, ''writing-redirect'' \<mapsto> PyInt 1],
          hp_templatename = module_dir app @ [''redirect.t.html''],
          hp_outfilename = outdir @ a @ [b @ ''.html'']\<rparr>]) \<and>
   (\<not> builder_is_dirhtml app \<or> ctx ''writing-redirect'' \<noteq> None \<or> page = ''index'' \<or>
    endswith page ''.index'' \<longrightarrow>
      fst (generate_html_redirs app page ctx) = [])"
  by (auto simp: generate_html_redirs_def Let_def path_parent_def path_name_def joinpath_def
      redirect_ctx_def dirhtml_get_outfilename_def butlast_append)

theorem generate_html_redirs_dirhtml_sibling_file_witness:
  "fst (generate_html_redirs dirhtml_app ''a/b'' Map.empty) =
     [\<lparr>hp_pagename = ''redirect-for-a/b'',
       hp_addctx = [''target'' \<mapsto> PyStr ''a/b'', ''writing-redirect'' \<mapsto> PyInt 1],
       hp_templatename = [''build'', ''sphinx'', ''redirect.t.html''],
       hp_outfilename = [''srv'', ''out'', ''a'', ''b.html'']\<rparr>] \<and>
   fst (generate_html_redirs (dirhtml_app\<lparr>builder_is_dirhtml := False\<rparr>) ''a/b'' Map.empty) = [] \<and>
   fst (generate_html_redirs dirhtml_app ''a/b'' [''writing-redirect'' \<mapsto> PyInt 1]) = [] \<and>
   fst (generate_html_redirs dirhtml_app ''index'' Map.empty) = [] \<and>
   fst (generate_html_redirs dirhtml_app ''a.index'' Map.empty) = []"
proof -
  have parts: "path_parts ''a/b'' = [''a''] @ [''b'']"
    by code_simp
  have guards: "\<not> endswith ''a/b'' ''.index'' \<and> \<not> endswith ''a/b'' ''/index'' \<and>
      endswith ''a.index'' ''.index''"
    by code_simp
  have app: "builder_is_dirhtml dirhtml_app \<and>
      get_outfilename dirhtml_app ''a/b'' =
        dirhtml_get_outfilename [''srv'', ''out''] ''.html'' ''a/b'' \<and>
      module_dir dirhtml_app = [''build'', ''sphinx'']"
    by (simp add: dirhtml_app_def)
  from generate_html_redirs_dirhtml_sibling_file
      [of dirhtml_app Map.empty "''a/b''" "[''srv'', ''out'']" "''.html''" "[''a'']" "''b''"]
    generate_html_redirs_dirhtml_sibling_file
      [of "dirhtml_app\<lparr>builder_is_dirhtml := False\<rparr>" Map.empty "''a/b''"]
    generate_html_redirs_dirhtml_sibling_file
      [of dirhtml_app "[''writing-redirect'' \<mapsto> PyInt 1]" "''a/b''"]
    generate_html_redirs_dirhtml_sibling_file [of dirhtml_app Map.empty "''index''"]
    generate_html_redirs_dirhtml_sibling_file [of dirhtml_app Map.empty "''a.index''"]
    parts guards app
  show ?thesis
    by simp
qed

text \<open>
  Claim C7. The context of every \<^verbatim>\<open>handle_page\<close> call the hook makes has the key
  \<^verbatim>\<open>writing-redirect\<close>; on a context with that key the hook makes no call and logs
  nothing; so when the framework runs the hook again for the redirect page, on a context
  that holds the entries of the call's context, no second redirect is written.
\<close>

theorem generate_html_redirs_marker_guard:
  assumes "c \<in> set (fst (generate_html_redirs app page ctx))"
  shows "hp_addctx c ''writing-redirect'' \<noteq> None \<and>
         (\<forall>app' page' ctx'. ctx' ''writing-redirect'' \<noteq> None \<longrightarrow>
            generate_html_redirs app' page' ctx' = ([], [])) \<and>
         (\<forall>app' ctx'. hp_addctx c \<subseteq>\<^sub>m ctx' \<longrightarrow>
            generate_html_redirs app' (hp_pagename c) ctx' = ([], []))"
proof -
  have marker: "hp_addctx c ''writing-redirect'' = Some (PyInt 1)"
    using assms
    by (auto simp: generate_html_redirs_def Let_def redirect_ctx_def split: if_splits)
  have guard: "generate_html_redirs app' page' ctx' = ([], [])"
    if "ctx' ''writing-redirect'' \<noteq> None" for app' page' ctx'
    using that by (simp add: generate_html_redirs_def)
  have "ctx' ''writing-redirect'' \<noteq> None" if "hp_addctx c \<subseteq>\<^sub>m ctx'" for ctx'
    using that marker by (auto simp: map_le_def dom_def)
  with marker guard show ?thesis
    by simp
qed

theorem generate_html_redirs_marker_guard_witness:
  "\<lparr>hp_pagename = ''redirect-for-a/b'', hp_addctx = redirect_ctx ''a/b'',
     hp_templatename = [''build'', ''sphinx'', ''redirect.t.html''],
     hp_outfilename = [''out'', ''a'', ''b.html'']\<rparr>
     \<in> set (fst (generate_html_redirs example_app ''a/b'' Map.empty)) \<and>
   redirect_ctx ''a/b'' ''writing-redirect'' \<noteq> None \<and>
   generate_html_redirs example_app ''redirect-for-a/b''
     (redirect_ctx ''a/b'' ++ [''metatags'' \<mapsto> PyStr '''']) = ([], [])"
proof -
  let ?c = "\<lparr>hp_pagename = ''redirect-for-a/b'', hp_addctx = redirect_ctx ''a/b'',
     hp_templatename = [''build'', ''sphinx'', ''redirect.t.html''],
     hp_outfilename = [''out'', ''a'', ''b.html'']\<rparr>"
  have h: "?c \<in> set (fst (generate_html_redirs example_app ''a/b'' Map.empty))"
    by (simp add: generate_html_redirs_def example_app_def endswith_def Let_def
        path_parent_def path_name_def joinpath_def)
  have le: "hp_addctx ?c \<subseteq>\<^sub>m redirect_ctx ''a/b'' ++ [''metatags'' \<mapsto> PyStr '''']"
    by (simp add: map_le_def redirect_ctx_def map_add_def)
  from generate_html_redirs_marker_guard [OF h] h le show ?thesis
    by simp
qed

end
